theory Spec2Isabelle
  imports Complex_Main
begin

section \<open>The ego vehicle of the CARLA ROS bridge\<close>

text \<open>
  A shallow embedding of \<^verbatim>\<open>carla_ros_bridge/ego_vehicle.py\<close> (class \<^verbatim>\<open>EgoVehicle\<close>).
  Python floats are modelled as \<^typ>\<open>real\<close> (rounding, infinities and NaN are outside
  the model), Python ints as \<^typ>\<open>int\<close>, strings as \<^typ>\<open>string\<close>.
  What the class does to the outside (publishing a message, calling the simulator,
  calling the callback given to the constructor) is an \<open>event\<close>; every method returns the
  object's new state together with the events it caused, in the order of the source.
\<close>

subsection \<open>Data of the collaborators\<close>

text \<open>\<^verbatim>\<open>carla.Vector3D\<close>, \<^verbatim>\<open>carla.Location\<close>, \<^verbatim>\<open>geometry_msgs/Vector3\<close>, \<^verbatim>\<open>geometry_msgs/Point\<close>.\<close>

record vector3 =
  vec_x :: real
  vec_y :: real
  vec_z :: real

text \<open>\<^verbatim>\<open>geometry_msgs/Quaternion\<close>.\<close>

record quaternion =
  quat_x :: real
  quat_y :: real
  quat_z :: real
  quat_w :: real

text \<open>\<^verbatim>\<open>geometry_msgs/Pose\<close> and \<^verbatim>\<open>geometry_msgs/Accel\<close>.\<close>

record pose =
  position :: vector3
  orientation :: quaternion

record accel =
  linear :: vector3
  angular :: vector3

text \<open>\<^verbatim>\<open>std_msgs/Header\<close>; the stamp is kept in seconds.\<close>

record header =
  stamp :: real
  frame_id :: string

text \<open>\<^verbatim>\<open>carla.Rotation\<close> (degrees).\<close>

record rotation =
  pitch :: real
  yaw :: real
  roll :: real

text \<open>
  A 4x4 matrix as \<^verbatim>\<open>carla.Transform.get_inverse_matrix()\<close> returns it (a list of four
  rows of four floats), and the four-element vector it is multiplied with.
\<close>

type_synonym vec4 = "real \<times> real \<times> real \<times> real"
type_synonym mat4 = "vec4 \<times> vec4 \<times> vec4 \<times> vec4"

text \<open>
  \<^verbatim>\<open>carla.Transform\<close>. CARLA is an external library: the matrix that its method
  \<^verbatim>\<open>get_inverse_matrix()\<close> returns for a transform is carried with the transform.
\<close>

record transform =
  location :: vector3
  rotation :: rotation
  get_inverse_matrix :: mat4

text \<open>\<^verbatim>\<open>carla.VehicleControl\<close>.\<close>

record vehicle_control =
  vc_throttle :: real
  vc_steer :: real
  vc_brake :: real
  vc_hand_brake :: bool
  vc_reverse :: bool
  vc_manual_gear_shift :: bool
  vc_gear :: int

text \<open>\<^verbatim>\<open>carla.WheelPhysicsControl\<close> and \<^verbatim>\<open>carla.VehiclePhysicsControl\<close>, the fields read here.\<close>

record wheel_physics_control =
  wpc_tire_friction :: real
  wpc_damping_rate :: real
  wpc_max_steer_angle :: real
  wpc_radius :: real
  wpc_max_brake_torque :: real
  wpc_max_handbrake_torque :: real
  wpc_position :: vector3

record vehicle_physics_control =
  vpc_wheels :: "wheel_physics_control list"
  vpc_max_rpm :: real
  vpc_moi :: real
  vpc_damping_rate_full_throttle :: real
  vpc_damping_rate_zero_throttle_clutch_engaged :: real
  vpc_damping_rate_zero_throttle_clutch_disengaged :: real
  vpc_use_gear_autobox :: bool
  vpc_gear_switch_time :: real
  vpc_clutch_strength :: real
  vpc_mass :: real
  vpc_drag_coefficient :: real
  vpc_center_of_mass :: vector3

text \<open>
  \<^verbatim>\<open>self.carla_actor\<close>: what the simulator's actor handle answers when it is asked during
  one call of a method.
\<close>

record carla_actor =
  actor_id :: int
  type_id :: string
  attributes :: "string \<rightharpoonup> string"
  get_control :: vehicle_control
  get_velocity :: vector3
  get_transform :: transform
  get_physics_control :: vehicle_physics_control

text \<open>
  The methods inherited from the base classes (\<^verbatim>\<open>carla_ros_bridge.vehicle.Vehicle\<close> and
  above) that \<^verbatim>\<open>send_vehicle_msgs\<close> calls, with the actor handle: their results are
  parameters of the model.
\<close>

record env =
  carla_actor :: carla_actor
  get_msg_header :: "string \<Rightarrow> real \<Rightarrow> header"
  get_current_ros_pose :: pose
  get_current_ros_accel :: accel

subsection \<open>Messages\<close>

text \<open>\<^verbatim>\<open>carla_msgs/CarlaEgoVehicleControl\<close>.\<close>

record carla_ego_vehicle_control =
  control_header :: header
  throttle :: real
  steer :: real
  brake :: real
  hand_brake :: bool
  reverse :: bool
  gear :: int
  manual_gear_shift :: bool

text \<open>\<^verbatim>\<open>carla_msgs/CarlaEgoVehicleStatus\<close>.\<close>

record carla_ego_vehicle_status =
  status_header :: header
  velocity :: real
  acceleration :: accel
  status_orientation :: quaternion
  control :: carla_ego_vehicle_control

text \<open>\<^verbatim>\<open>geometry_msgs/PoseStamped\<close>.\<close>

record pose_stamped =
  pose_header :: header
  pose :: pose

text \<open>\<^verbatim>\<open>localization_msgs/Canbus\<close>, the fields the constructor call sets.\<close>

record canbus =
  canbus_header :: header
  steering :: real
  canbus_throttle :: real
  speed :: real
  canbus_brake :: real
  canbus_accel :: real
  checksum :: int

text \<open>\<^verbatim>\<open>carla_msgs/CarlaEgoVehicleInfoWheel\<close> and \<^verbatim>\<open>carla_msgs/CarlaEgoVehicleInfo\<close>.\<close>

record carla_ego_vehicle_info_wheel =
  tire_friction :: real
  damping_rate :: real
  max_steer_angle :: real
  radius :: real
  max_brake_torque :: real
  max_handbrake_torque :: real
  wheel_position :: vector3

record carla_ego_vehicle_info =
  info_id :: int
  info_type :: string
  rolename :: "string option"
  wheels :: "carla_ego_vehicle_info_wheel list"
  max_rpm :: real
  moi :: real
  damping_rate_full_throttle :: real
  damping_rate_zero_throttle_clutch_engaged :: real
  damping_rate_zero_throttle_clutch_disengaged :: real
  use_gear_autobox :: bool
  gear_switch_time :: real
  clutch_strength :: real
  mass :: real
  drag_coefficient :: real
  center_of_mass :: vector3

text \<open>The values of freshly constructed messages.\<close>

definition zero_vector3 :: vector3 where
  "zero_vector3 = \<lparr>vec_x = 0, vec_y = 0, vec_z = 0\<rparr>"

definition default_header :: header where
  "default_header = \<lparr>stamp = 0, frame_id = []\<rparr>"

definition default_control :: carla_ego_vehicle_control where
  "default_control =
     \<lparr>control_header = default_header, throttle = 0, steer = 0, brake = 0,
      hand_brake = False, reverse = False, gear = 0, manual_gear_shift = False\<rparr>"

subsection \<open>Events\<close>

datatype event =
    Publish_vehicle_status carla_ego_vehicle_status
  | Publish_canbus canbus
  | Publish_ego_location pose_stamped
  | Publish_vehicle_info carla_ego_vehicle_info
  | Apply_control vehicle_control
  | Vehicle_control_applied_callback int
  | Set_autopilot bool

subsection \<open>The object\<close>

text \<open>
  The two flags of \<^verbatim>\<open>EgoVehicle\<close> and the identifier that the inherited \<^verbatim>\<open>get_id()\<close>
  returns.
\<close>

record ego_vehicle =
  get_id :: int
  vehicle_info_published :: bool
  vehicle_control_override :: bool

definition init :: "int \<Rightarrow> ego_vehicle" where
  "init uid =
     \<lparr>get_id = uid, vehicle_info_published = False, vehicle_control_override = False\<rparr>"

subsection \<open>Euler angles to a quaternion\<close>

definition get_quaternion_from_euler :: "real \<Rightarrow> real \<Rightarrow> real \<Rightarrow> real \<times> real \<times> real \<times> real" where
  "get_quaternion_from_euler r p yw =
     (let qx = sin (r / 2) * cos (p / 2) * cos (yw / 2) - cos (r / 2) * sin (p / 2) * sin (yw / 2);
          qy = cos (r / 2) * sin (p / 2) * cos (yw / 2) + sin (r / 2) * cos (p / 2) * sin (yw / 2);
          qz = cos (r / 2) * cos (p / 2) * sin (yw / 2) - sin (r / 2) * sin (p / 2) * cos (yw / 2);
          qw = cos (r / 2) * cos (p / 2) * cos (yw / 2) + sin (r / 2) * sin (p / 2) * sin (yw / 2)
      in (qx, qy, qz, qw))"

subsection \<open>Speed\<close>

datatype error = ValueError

text \<open>\<^verbatim>\<open>math.sqrt\<close> raises \<^verbatim>\<open>ValueError\<close> on a negative argument.\<close>

definition math_sqrt :: "real \<Rightarrow> error + real" where
  "math_sqrt v = (if v < 0 then Inl ValueError else Inr (sqrt v))"

definition get_vector_length_squared :: "vector3 \<Rightarrow> real" where
  "get_vector_length_squared carla_vector =
     vec_x carla_vector * vec_x carla_vector
     + vec_y carla_vector * vec_y carla_vector
     + vec_z carla_vector * vec_z carla_vector"

definition get_vehicle_speed_squared :: "carla_actor \<Rightarrow> real" where
  "get_vehicle_speed_squared carla_vehicle =
     get_vector_length_squared (get_velocity carla_vehicle)"

definition get_vehicle_speed_abs :: "carla_actor \<Rightarrow> error + real" where
  "get_vehicle_speed_abs carla_vehicle = math_sqrt (get_vehicle_speed_squared carla_vehicle)"

subsection \<open>The wheels of the static descriptor\<close>

text \<open>\<^verbatim>\<open>math.radians\<close>.\<close>

definition radians :: "real \<Rightarrow> real" where
  "radians d = d * (pi / 180)"

text \<open>\<^verbatim>\<open>numpy.matmul\<close> of a 4x4 matrix and a vector of four elements.\<close>

fun dot4 :: "vec4 \<Rightarrow> vec4 \<Rightarrow> real" where
  "dot4 (a0, a1, a2, a3) (b0, b1, b2, b3) = a0 * b0 + a1 * b1 + a2 * b2 + a3 * b3"

fun matmul :: "mat4 \<Rightarrow> vec4 \<Rightarrow> vec4" where
  "matmul (r0, r1, r2, r3) v = (dot4 r0 v, dot4 r1 v, dot4 r2 v, dot4 r3 v)"

text \<open>The body of the loop over \<^verbatim>\<open>vehicle_physics.wheels\<close> (lines 221 to 243).\<close>

definition wheel_info_of :: "carla_actor \<Rightarrow> wheel_physics_control \<Rightarrow> carla_ego_vehicle_info_wheel" where
  "wheel_info_of actor wheel =
     (let inv_T = get_inverse_matrix (get_transform actor);
          wheel_pos_in_map =
            (vec_x (wpc_position wheel) / 100,
             vec_y (wpc_position wheel) / 100,
             vec_z (wpc_position wheel) / 100,
             1);
          wheel_pos_in_ego_vehicle = matmul inv_T wheel_pos_in_map
      in case wheel_pos_in_ego_vehicle of (p0, p1, p2, p3) \<Rightarrow>
         \<lparr>tire_friction = wpc_tire_friction wheel,
          damping_rate = wpc_damping_rate wheel,
          max_steer_angle = radians (wpc_max_steer_angle wheel),
          radius = wpc_radius wheel,
          max_brake_torque = wpc_max_brake_torque wheel,
          max_handbrake_torque = wpc_max_handbrake_torque wheel,
          wheel_position = \<lparr>vec_x = p0, vec_y = - p1, vec_z = p2\<rparr>\<rparr>)"

text \<open>The loop itself: each wheel's message is appended to \<^verbatim>\<open>vehicle_info.wheels\<close>.\<close>

fun wheels_loop ::
  "carla_actor \<Rightarrow> wheel_physics_control list \<Rightarrow> carla_ego_vehicle_info_wheel list \<Rightarrow>
   carla_ego_vehicle_info_wheel list" where
  "wheels_loop actor [] acc = acc"
| "wheels_loop actor (wheel # rest) acc = wheels_loop actor rest (acc @ [wheel_info_of actor wheel])"

text \<open>The static descriptor (lines 214 to 265).\<close>

definition vehicle_info_of :: "carla_actor \<Rightarrow> carla_ego_vehicle_info" where
  "vehicle_info_of actor =
     (let vehicle_physics = get_physics_control actor
      in \<lparr>info_id = actor_id actor,
          info_type = type_id actor,
          rolename = attributes actor ''role_name'',
          wheels = wheels_loop actor (vpc_wheels vehicle_physics) [],
          max_rpm = vpc_max_rpm vehicle_physics,
          moi = vpc_moi vehicle_physics,
          damping_rate_full_throttle = vpc_damping_rate_full_throttle vehicle_physics,
          damping_rate_zero_throttle_clutch_engaged =
            vpc_damping_rate_zero_throttle_clutch_engaged vehicle_physics,
          damping_rate_zero_throttle_clutch_disengaged =
            vpc_damping_rate_zero_throttle_clutch_disengaged vehicle_physics,
          use_gear_autobox = vpc_use_gear_autobox vehicle_physics,
          gear_switch_time = vpc_gear_switch_time vehicle_physics,
          clutch_strength = vpc_clutch_strength vehicle_physics,
          mass = vpc_mass vehicle_physics,
          drag_coefficient = vpc_drag_coefficient vehicle_physics,
          center_of_mass =
            \<lparr>vec_x = vec_x (vpc_center_of_mass vehicle_physics),
             vec_y = vec_y (vpc_center_of_mass vehicle_physics),
             vec_z = vec_z (vpc_center_of_mass vehicle_physics)\<rparr>\<rparr>)"

subsection \<open>The per-frame messages\<close>

text \<open>The three messages built on every call (lines 167 to 206).\<close>

definition vehicle_status_of :: "env \<Rightarrow> real \<Rightarrow> real \<Rightarrow> carla_ego_vehicle_status" where
  "vehicle_status_of e timestamp v =
     \<lparr>status_header = get_msg_header e ''map'' timestamp,
      velocity = v,
      acceleration = \<lparr>linear = linear (get_current_ros_accel e), angular = zero_vector3\<rparr>,
      status_orientation = orientation (get_current_ros_pose e),
      control = default_control
        \<lparr>throttle := vc_throttle (get_control (carla_actor e)),
         steer := vc_steer (get_control (carla_actor e)),
         brake := vc_brake (get_control (carla_actor e)),
         hand_brake := vc_hand_brake (get_control (carla_actor e)),
         reverse := vc_reverse (get_control (carla_actor e)),
         gear := vc_gear (get_control (carla_actor e)),
         manual_gear_shift := vc_manual_gear_shift (get_control (carla_actor e))\<rparr>\<rparr>"

text \<open>
  The locals \<^verbatim>\<open>cy, sy, cp, sp, cr, sr\<close> of lines 189 to 194 are never read, and the call
  of \<open>get_quaternion_from_euler\<close> on line 208 is a comment.
\<close>

definition ego_loc_of :: "env \<Rightarrow> real \<Rightarrow> pose_stamped" where
  "ego_loc_of e timestamp =
     (let ego_transform = get_transform (carla_actor e)
      in \<lparr>pose_header = get_msg_header e ''map'' timestamp,
          pose =
            \<lparr>position =
               \<lparr>vec_x = vec_x (location ego_transform),
                vec_y = vec_y (location ego_transform),
                vec_z = vec_z (location ego_transform)\<rparr>,
             orientation = orientation (get_current_ros_pose e)\<rparr>\<rparr>)"

definition canbus_msg_of :: "env \<Rightarrow> real \<Rightarrow> carla_ego_vehicle_status \<Rightarrow> canbus" where
  "canbus_msg_of e timestamp vehicle_status =
     \<lparr>canbus_header = get_msg_header e ''map'' timestamp,
      steering = steer (control vehicle_status),
      canbus_throttle = throttle (control vehicle_status),
      speed = velocity vehicle_status,
      canbus_brake = brake (control vehicle_status),
      canbus_accel = vec_x (linear (acceleration vehicle_status)),
      checksum = 1\<rparr>"

definition send_vehicle_msgs ::
  "ego_vehicle \<Rightarrow> env \<Rightarrow> int \<Rightarrow> real \<Rightarrow> error + ego_vehicle \<times> event list" where
  "send_vehicle_msgs self e frame timestamp =
     (case get_vehicle_speed_abs (carla_actor e) of
        Inl err \<Rightarrow> Inl err
      | Inr v \<Rightarrow>
          (let vehicle_status = vehicle_status_of e timestamp v;
               ego_loc = ego_loc_of e timestamp;
               canbus_msg = canbus_msg_of e timestamp vehicle_status;
               published =
                 [Publish_vehicle_status vehicle_status,
                  Publish_canbus canbus_msg,
                  Publish_ego_location ego_loc]
           in if \<not> vehicle_info_published self
              then Inr (self\<lparr>vehicle_info_published := True\<rparr>,
                        published @ [Publish_vehicle_info (vehicle_info_of (carla_actor e))])
              else Inr (self, published)))"

subsection \<open>The subscription callbacks\<close>

definition control_command_override :: "ego_vehicle \<Rightarrow> bool \<Rightarrow> ego_vehicle \<times> event list" where
  "control_command_override self enable = (self\<lparr>vehicle_control_override := enable\<rparr>, [])"

definition control_command_updated ::
  "ego_vehicle \<Rightarrow> carla_ego_vehicle_control \<Rightarrow> bool \<Rightarrow> ego_vehicle \<times> event list" where
  "control_command_updated self ros_vehicle_control manual_override =
     (if manual_override = vehicle_control_override self
      then (let vehicle_control =
                  \<lparr>vc_throttle = throttle ros_vehicle_control,
                   vc_steer = steer ros_vehicle_control,
                   vc_brake = brake ros_vehicle_control,
                   vc_hand_brake = hand_brake ros_vehicle_control,
                   vc_reverse = reverse ros_vehicle_control,
                   vc_manual_gear_shift = manual_gear_shift ros_vehicle_control,
                   vc_gear = gear ros_vehicle_control\<rparr>
            in (self, [Apply_control vehicle_control, Vehicle_control_applied_callback (get_id self)]))
      else (self, []))"

text \<open>The debug log line of \<^verbatim>\<open>enable_autopilot_updated\<close> is not an event of the model.\<close>

definition enable_autopilot_updated :: "ego_vehicle \<Rightarrow> bool \<Rightarrow> ego_vehicle \<times> event list" where
  "enable_autopilot_updated self enable_auto_pilot = (self, [Set_autopilot enable_auto_pilot])"

subsection \<open>The calls the object receives\<close>

text \<open>
  The constructor subscribes \<open>control_command_updated\<close> to the primary topic with
  \<^verbatim>\<open>manual_override=False\<close> and to the manual topic with \<^verbatim>\<open>manual_override=True\<close>,
  \<open>control_command_override\<close> to the override topic and \<open>enable_autopilot_updated\<close> to the
  autopilot topic; once per frame \<^verbatim>\<open>update\<close> calls \<open>send_vehicle_msgs\<close> (and then the
  inherited \<^verbatim>\<open>update\<close>, which is not part of this class). The calls are handled one after
  the other.
\<close>

datatype call =
    Frame env int real
  | Vehicle_control_cmd carla_ego_vehicle_control
  | Vehicle_control_cmd_manual carla_ego_vehicle_control
  | Vehicle_control_manual_override bool
  | Enable_autopilot bool

fun handle :: "ego_vehicle \<Rightarrow> call \<Rightarrow> error + ego_vehicle \<times> event list" where
  "handle self (Frame e frame timestamp) = send_vehicle_msgs self e frame timestamp"
| "handle self (Vehicle_control_cmd data) = Inr (control_command_updated self data False)"
| "handle self (Vehicle_control_cmd_manual data) = Inr (control_command_updated self data True)"
| "handle self (Vehicle_control_manual_override enable) = Inr (control_command_override self enable)"
| "handle self (Enable_autopilot enable) = Inr (enable_autopilot_updated self enable)"

fun run :: "ego_vehicle \<Rightarrow> call list \<Rightarrow> error + ego_vehicle \<times> event list" where
  "run self [] = Inr (self, [])"
| "run self (c # cs) =
     (case handle self c of
        Inl err \<Rightarrow> Inl err
      | Inr (self', evs) \<Rightarrow>
          (case run self' cs of
             Inl err \<Rightarrow> Inl err
           | Inr (self'', evs') \<Rightarrow> Inr (self'', evs @ evs')))"

subsection \<open>Reading the events\<close>

fun applied_controls :: "event list \<Rightarrow> vehicle_control list" where
  "applied_controls [] = []"
| "applied_controls (Apply_control vc # evs) = vc # applied_controls evs"
| "applied_controls (_ # evs) = applied_controls evs"

fun callback_calls :: "event list \<Rightarrow> int list" where
  "callback_calls [] = []"
| "callback_calls (Vehicle_control_applied_callback uid # evs) = uid # callback_calls evs"
| "callback_calls (_ # evs) = callback_calls evs"

fun published_infos :: "event list \<Rightarrow> carla_ego_vehicle_info list" where
  "published_infos [] = []"
| "published_infos (Publish_vehicle_info m # evs) = m # published_infos evs"
| "published_infos (_ # evs) = published_infos evs"

fun published_statuses :: "event list \<Rightarrow> carla_ego_vehicle_status list" where
  "published_statuses [] = []"
| "published_statuses (Publish_vehicle_status m # evs) = m # published_statuses evs"
| "published_statuses (_ # evs) = published_statuses evs"

fun published_poses :: "event list \<Rightarrow> pose_stamped list" where
  "published_poses [] = []"
| "published_poses (Publish_ego_location m # evs) = m # published_poses evs"
| "published_poses (_ # evs) = published_poses evs"

fun published_canbus :: "event list \<Rightarrow> canbus list" where
  "published_canbus [] = []"
| "published_canbus (Publish_canbus m # evs) = m # published_canbus evs"
| "published_canbus (_ # evs) = published_canbus evs"

subsection \<open>The identity transform\<close>

definition identity_matrix :: mat4 where
  "identity_matrix = ((1, 0, 0, 0), (0, 1, 0, 0), (0, 0, 1, 0), (0, 0, 0, 1))"

text \<open>
  The identity world transform: no translation, no rotation, and the inverse matrix CARLA
  gives for it is the 4x4 identity matrix.
\<close>

definition is_identity_transform :: "transform \<Rightarrow> bool" where
  "is_identity_transform t =
     (location t = zero_vector3 \<and> rotation t = \<lparr>pitch = 0, yaw = 0, roll = 0\<rparr>
      \<and> get_inverse_matrix t = identity_matrix)"

subsection \<open>The override flag as the specification describes it\<close>

text \<open>
  The commands that are to be applied out of a sequence of calls, when the override flag is
  \<open>ov\<close> at its start: an override message sets the flag, a primary command applies while
  the flag is false, a manual command while it is true.
\<close>

fun routed_spec :: "bool \<Rightarrow> call list \<Rightarrow> carla_ego_vehicle_control list" where
  "routed_spec ov [] = []"
| "routed_spec ov (Vehicle_control_manual_override b # cs) = routed_spec b cs"
| "routed_spec ov (Vehicle_control_cmd d # cs) = (if ov then [] else [d]) @ routed_spec ov cs"
| "routed_spec ov (Vehicle_control_cmd_manual d # cs) = (if ov then [d] else []) @ routed_spec ov cs"
| "routed_spec ov (_ # cs) = routed_spec ov cs"

text \<open>The environment of the first per-frame call of a sequence of calls, if there is one.\<close>

fun first_frame :: "call list \<Rightarrow> env option" where
  "first_frame [] = None"
| "first_frame (Frame e frame timestamp # cs) = Some e"
| "first_frame (_ # cs) = first_frame cs"

subsection \<open>A concrete vehicle\<close>

text \<open>
  An actor standing at the origin of the map, unrotated, with one wheel that the simulator
  reports at (150, 80, 30) centimetres, moving with velocity (3, 4, 12).
\<close>

definition example_wheel :: wheel_physics_control where
  "example_wheel =
     \<lparr>wpc_tire_friction = 7 / 2, wpc_damping_rate = 1 / 4, wpc_max_steer_angle = 90,
      wpc_radius = 35, wpc_max_brake_torque = 1500, wpc_max_handbrake_torque = 3000,
      wpc_position = \<lparr>vec_x = 150, vec_y = 80, vec_z = 30\<rparr>\<rparr>"

definition example_actor :: carla_actor where
  "example_actor =
     \<lparr>actor_id = 42,
      type_id = ''vehicle.tesla.model3'',
      attributes = [''role_name'' \<mapsto> ''ego_vehicle''],
      get_control =
        \<lparr>vc_throttle = 1 / 2, vc_steer = 0, vc_brake = 0, vc_hand_brake = False,
         vc_reverse = False, vc_manual_gear_shift = False, vc_gear = 1\<rparr>,
      get_velocity = \<lparr>vec_x = 3, vec_y = 4, vec_z = 12\<rparr>,
      get_transform =
        \<lparr>location = zero_vector3, rotation = \<lparr>pitch = 0, yaw = 0, roll = 0\<rparr>,
         get_inverse_matrix = identity_matrix\<rparr>,
      get_physics_control =
        \<lparr>vpc_wheels = [example_wheel], vpc_max_rpm = 5000, vpc_moi = 1,
         vpc_damping_rate_full_throttle = 3 / 20,
         vpc_damping_rate_zero_throttle_clutch_engaged = 2,
         vpc_damping_rate_zero_throttle_clutch_disengaged = 7 / 20,
         vpc_use_gear_autobox = True, vpc_gear_switch_time = 1 / 2,
         vpc_clutch_strength = 10, vpc_mass = 1800, vpc_drag_coefficient = 3 / 10,
         vpc_center_of_mass = zero_vector3\<rparr>\<rparr>"

definition example_env :: env where
  "example_env =
     \<lparr>carla_actor = example_actor,
      get_msg_header = (\<lambda>frame timestamp. \<lparr>stamp = timestamp, frame_id = frame\<rparr>),
      get_current_ros_pose =
        \<lparr>position = zero_vector3,
         orientation = \<lparr>quat_x = 0, quat_y = 0, quat_z = 0, quat_w = 1\<rparr>\<rparr>,
      get_current_ros_accel = \<lparr>linear = zero_vector3, angular = zero_vector3\<rparr>\<rparr>"

section \<open>Auxiliary facts\<close>

lemma length_squared_nonneg: "0 \<le> get_vector_length_squared v"
  by (simp add: get_vector_length_squared_def)

lemma speed_abs_returns:
  "get_vehicle_speed_abs a = Inr (sqrt (get_vector_length_squared (get_velocity a)))"
  using length_squared_nonneg [of "get_velocity a"]
  by (simp add: get_vehicle_speed_abs_def get_vehicle_speed_squared_def math_sqrt_def)

lemma wheels_loop_map:
  "wheels_loop actor ws acc = acc @ map (wheel_info_of actor) ws"
  by (induction ws arbitrary: acc) simp_all

lemma send_vehicle_msgs_returns:
  "send_vehicle_msgs self e frame timestamp =
     Inr (self\<lparr>vehicle_info_published := True\<rparr>,
          [Publish_vehicle_status
             (vehicle_status_of e timestamp
                (sqrt (get_vector_length_squared (get_velocity (carla_actor e))))),
           Publish_canbus
             (canbus_msg_of e timestamp
                (vehicle_status_of e timestamp
                   (sqrt (get_vector_length_squared (get_velocity (carla_actor e)))))),
           Publish_ego_location (ego_loc_of e timestamp)]
          @ (if vehicle_info_published self then []
             else [Publish_vehicle_info (vehicle_info_of (carla_actor e))]))"
  by (simp add: send_vehicle_msgs_def speed_abs_returns Let_def)

lemma applied_controls_append [simp]:
  "applied_controls (xs @ ys) = applied_controls xs @ applied_controls ys"
  by (induction xs rule: applied_controls.induct) simp_all

lemma callback_calls_append [simp]:
  "callback_calls (xs @ ys) = callback_calls xs @ callback_calls ys"
  by (induction xs rule: callback_calls.induct) simp_all

lemma published_infos_append [simp]:
  "published_infos (xs @ ys) = published_infos xs @ published_infos ys"
  by (induction xs rule: published_infos.induct) simp_all

lemma wheel_info_of_fields:
  "wheel_info_of actor wheel =
     (case get_inverse_matrix (get_transform actor) of
        ((m00, m01, m02, m03), (m10, m11, m12, m13), (m20, m21, m22, m23), r3) \<Rightarrow>
          \<lparr>tire_friction = wpc_tire_friction wheel,
           damping_rate = wpc_damping_rate wheel,
           max_steer_angle = wpc_max_steer_angle wheel * pi / 180,
           radius = wpc_radius wheel,
           max_brake_torque = wpc_max_brake_torque wheel,
           max_handbrake_torque = wpc_max_handbrake_torque wheel,
           wheel_position =
             \<lparr>vec_x = m00 * (vec_x (wpc_position wheel) / 100)
                      + m01 * (vec_y (wpc_position wheel) / 100)
                      + m02 * (vec_z (wpc_position wheel) / 100) + m03,
              vec_y = - (m10 * (vec_x (wpc_position wheel) / 100)
                         + m11 * (vec_y (wpc_position wheel) / 100)
                         + m12 * (vec_z (wpc_position wheel) / 100) + m13),
              vec_z = m20 * (vec_x (wpc_position wheel) / 100)
                      + m21 * (vec_y (wpc_position wheel) / 100)
                      + m22 * (vec_z (wpc_position wheel) / 100) + m23\<rparr>\<rparr>)"
  by (cases "get_inverse_matrix (get_transform actor)")
    (auto simp add: wheel_info_of_def radians_def Let_def)

lemma wheels_of_vehicle_info:
  "wheels (vehicle_info_of actor) =
     map (wheel_info_of actor) (vpc_wheels (get_physics_control actor))"
  by (simp add: vehicle_info_of_def wheels_loop_map Let_def)

lemma published_statuses_append [simp]:
  "published_statuses (xs @ ys) = published_statuses xs @ published_statuses ys"
  by (induction xs rule: published_statuses.induct) simp_all

lemma published_poses_append [simp]:
  "published_poses (xs @ ys) = published_poses xs @ published_poses ys"
  by (induction xs rule: published_poses.induct) simp_all

lemma published_canbus_append [simp]:
  "published_canbus (xs @ ys) = published_canbus xs @ published_canbus ys"
  by (induction xs rule: published_canbus.induct) simp_all

lemma handle_returns:
  "\<exists>self' evs. handle self c = Inr (self', evs)"
  by (cases c) (simp_all add: send_vehicle_msgs_returns)

lemma run_returns:
  "\<exists>self' evs. run self cs = Inr (self', evs)"
proof (induction cs arbitrary: self)
  case Nil
  show ?case by simp
next
  case (Cons c cs)
  obtain s1 evs1 where h: "handle self c = Inr (s1, evs1)"
    using handle_returns by blast
  obtain s2 evs2 where r: "run s1 cs = Inr (s2, evs2)"
    using Cons.IH by blast
  show ?case by (simp add: h r)
qed

section \<open>Properties\<close>

text \<open>
  C5. With roll = 0 and pitch = 0, \<open>get_quaternion_from_euler\<close> returns, for every yaw,
  the quaternion (qx, qy, qz, qw) = (0, 0, sin (yaw / 2), cos (yaw / 2)).
\<close>

theorem quaternion_pure_yaw:
  "get_quaternion_from_euler 0 0 yw = (0, 0, sin (yw / 2), cos (yw / 2))"
  by (simp add: get_quaternion_from_euler_def)

text \<open>
  C1. While the override flag is false, a command received on the manual channel is not
  forwarded to the simulator (no \<open>Apply_control\<close>), and a command received on the primary
  channel is forwarded once, with its seven fields (throttle, steer, brake, hand_brake,
  reverse, gear, manual_gear_shift) copied unchanged. While the flag is true it is the
  other way round.
\<close>

theorem control_command_routing:
  "(\<not> vehicle_control_override self \<longrightarrow>
      (\<exists>evs. handle self (Vehicle_control_cmd_manual cmd) = Inr (self, evs)
         \<and> applied_controls evs = []) \<and>
      (\<exists>evs. handle self (Vehicle_control_cmd cmd) = Inr (self, evs)
         \<and> applied_controls evs =
             [\<lparr>vc_throttle = throttle cmd, vc_steer = steer cmd, vc_brake = brake cmd,
               vc_hand_brake = hand_brake cmd, vc_reverse = reverse cmd,
               vc_manual_gear_shift = manual_gear_shift cmd, vc_gear = gear cmd\<rparr>]))
   \<and> (vehicle_control_override self \<longrightarrow>
      (\<exists>evs. handle self (Vehicle_control_cmd cmd) = Inr (self, evs)
         \<and> applied_controls evs = []) \<and>
      (\<exists>evs. handle self (Vehicle_control_cmd_manual cmd) = Inr (self, evs)
         \<and> applied_controls evs =
             [\<lparr>vc_throttle = throttle cmd, vc_steer = steer cmd, vc_brake = brake cmd,
               vc_hand_brake = hand_brake cmd, vc_reverse = reverse cmd,
               vc_manual_gear_shift = manual_gear_shift cmd, vc_gear = gear cmd\<rparr>]))"
  by (simp add: control_command_updated_def)

theorem control_command_routing_witness:
  "(\<not> vehicle_control_override (init 7)
    \<and> (\<exists>evs. handle (init 7) (Vehicle_control_cmd_manual (default_control\<lparr>throttle := 1 / 2\<rparr>))
               = Inr (init 7, evs) \<and> applied_controls evs = [])
    \<and> (\<exists>evs. handle (init 7) (Vehicle_control_cmd (default_control\<lparr>throttle := 1 / 2\<rparr>))
               = Inr (init 7, evs)
          \<and> applied_controls evs =
              [\<lparr>vc_throttle = 1 / 2, vc_steer = 0, vc_brake = 0, vc_hand_brake = False,
                vc_reverse = False, vc_manual_gear_shift = False, vc_gear = 0\<rparr>]))
   \<and> (vehicle_control_override ((init 7)\<lparr>vehicle_control_override := True\<rparr>)
    \<and> (\<exists>evs. handle ((init 7)\<lparr>vehicle_control_override := True\<rparr>)
                 (Vehicle_control_cmd (default_control\<lparr>gear := 3\<rparr>))
               = Inr ((init 7)\<lparr>vehicle_control_override := True\<rparr>, evs)
          \<and> applied_controls evs = [])
    \<and> (\<exists>evs. handle ((init 7)\<lparr>vehicle_control_override := True\<rparr>)
                 (Vehicle_control_cmd_manual (default_control\<lparr>gear := 3\<rparr>))
               = Inr ((init 7)\<lparr>vehicle_control_override := True\<rparr>, evs)
          \<and> applied_controls evs =
              [\<lparr>vc_throttle = 0, vc_steer = 0, vc_brake = 0, vc_hand_brake = False,
                vc_reverse = False, vc_manual_gear_shift = False, vc_gear = 3\<rparr>]))"
  using control_command_routing [of "init 7" "default_control\<lparr>throttle := 1 / 2\<rparr>"]
    control_command_routing [of "(init 7)\<lparr>vehicle_control_override := True\<rparr>"
      "default_control\<lparr>gear := 3\<rparr>"]
  by (simp add: init_def default_control_def)

text \<open>
  C3. A command that is forwarded to the simulator is followed by exactly one call of the
  control-applied callback, whose only argument is the vehicle's identifier; a command that
  is dropped, because its channel does not match the override flag, causes no call of the
  callback. So over any sequence of calls the callback is called once per forwarded
  command, each time with the vehicle's identifier, which no call changes.
\<close>

theorem callback_once_per_forwarded_command:
  "snd (control_command_updated self cmd manual_override) =
     (if manual_override = vehicle_control_override self
      then [Apply_control
              \<lparr>vc_throttle = throttle cmd, vc_steer = steer cmd, vc_brake = brake cmd,
               vc_hand_brake = hand_brake cmd, vc_reverse = reverse cmd,
               vc_manual_gear_shift = manual_gear_shift cmd, vc_gear = gear cmd\<rparr>,
            Vehicle_control_applied_callback (get_id self)]
      else [])
   \<and> callback_calls (snd (control_command_updated self cmd manual_override)) =
       replicate (length (applied_controls (snd (control_command_updated self cmd manual_override))))
         (get_id self)
   \<and> (\<exists>self' evs. run self cs = Inr (self', evs) \<and> get_id self' = get_id self
        \<and> callback_calls evs = replicate (length (applied_controls evs)) (get_id self))"
proof -
  have one: "snd (control_command_updated self cmd manual_override) =
     (if manual_override = vehicle_control_override self
      then [Apply_control
              \<lparr>vc_throttle = throttle cmd, vc_steer = steer cmd, vc_brake = brake cmd,
               vc_hand_brake = hand_brake cmd, vc_reverse = reverse cmd,
               vc_manual_gear_shift = manual_gear_shift cmd, vc_gear = gear cmd\<rparr>,
            Vehicle_control_applied_callback (get_id self)]
      else [])"
    by (simp add: control_command_updated_def)
  have two: "callback_calls (snd (control_command_updated self cmd manual_override)) =
       replicate (length (applied_controls (snd (control_command_updated self cmd manual_override))))
         (get_id self)"
    by (simp add: one)
  have many: "\<exists>self' evs. run self cs = Inr (self', evs) \<and> get_id self' = get_id self
        \<and> callback_calls evs = replicate (length (applied_controls evs)) (get_id self)"
  proof (induction cs arbitrary: self)
    case Nil
    show ?case by simp
  next
    case (Cons c cs)
    show ?case
    proof (cases c)
      case (Frame e frame timestamp)
      obtain s2 evs2 where r: "run (self\<lparr>vehicle_info_published := True\<rparr>) cs = Inr (s2, evs2)"
        and i: "get_id s2 = get_id self"
        and k: "callback_calls evs2 = replicate (length (applied_controls evs2)) (get_id self)"
        using Cons.IH [of "self\<lparr>vehicle_info_published := True\<rparr>"] by auto
      show ?thesis
        by (simp add: Frame send_vehicle_msgs_returns r i k)
    next
      case (Vehicle_control_cmd d)
      obtain s2 evs2 where r: "run self cs = Inr (s2, evs2)"
        and i: "get_id s2 = get_id self"
        and k: "callback_calls evs2 = replicate (length (applied_controls evs2)) (get_id self)"
        using Cons.IH [of self] by auto
      show ?thesis
        by (simp add: Vehicle_control_cmd control_command_updated_def r i k)
    next
      case (Vehicle_control_cmd_manual d)
      obtain s2 evs2 where r: "run self cs = Inr (s2, evs2)"
        and i: "get_id s2 = get_id self"
        and k: "callback_calls evs2 = replicate (length (applied_controls evs2)) (get_id self)"
        using Cons.IH [of self] by auto
      show ?thesis
        by (simp add: Vehicle_control_cmd_manual control_command_updated_def r i k)
    next
      case (Vehicle_control_manual_override b)
      obtain s2 evs2 where r: "run (self\<lparr>vehicle_control_override := b\<rparr>) cs = Inr (s2, evs2)"
        and i: "get_id s2 = get_id self"
        and k: "callback_calls evs2 = replicate (length (applied_controls evs2)) (get_id self)"
        using Cons.IH [of "self\<lparr>vehicle_control_override := b\<rparr>"] by auto
      show ?thesis
        by (simp add: Vehicle_control_manual_override control_command_override_def r i k)
    next
      case (Enable_autopilot b)
      obtain s2 evs2 where r: "run self cs = Inr (s2, evs2)"
        and i: "get_id s2 = get_id self"
        and k: "callback_calls evs2 = replicate (length (applied_controls evs2)) (get_id self)"
        using Cons.IH [of self] by auto
      show ?thesis
        by (simp add: Enable_autopilot enable_autopilot_updated_def r i k)
    qed
  qed
  from one two many show ?thesis by blast
qed

text \<open>
  C4. Only the handler of the override-enable message changes the override flag, and it
  sets the flag to the boolean received, whatever the flag was; every other call leaves the
  flag as it is. A control command handled right after the override message is routed by
  the new value. Over any sequence of calls the commands forwarded are exactly those that
  \<open>routed_spec\<close> selects, that is, each command is routed by the latest override value
  received before it: switching false, true, false shows in the very next command.
\<close>

theorem override_flag_routes_immediately:
  "control_command_override self b = (self\<lparr>vehicle_control_override := b\<rparr>, [])
   \<and> (\<exists>self' evs. handle self c = Inr (self', evs)
        \<and> vehicle_control_override self' =
            (case c of Vehicle_control_manual_override enable \<Rightarrow> enable
             | _ \<Rightarrow> vehicle_control_override self))
   \<and> applied_controls
        (snd (control_command_updated (fst (control_command_override self b)) cmd manual_override)) =
       (if manual_override = b
        then [\<lparr>vc_throttle = throttle cmd, vc_steer = steer cmd, vc_brake = brake cmd,
               vc_hand_brake = hand_brake cmd, vc_reverse = reverse cmd,
               vc_manual_gear_shift = manual_gear_shift cmd, vc_gear = gear cmd\<rparr>]
        else [])
   \<and> (\<exists>self' evs. run self cs = Inr (self', evs)
        \<and> applied_controls evs =
            map (\<lambda>d. \<lparr>vc_throttle = throttle d, vc_steer = steer d, vc_brake = brake d,
                       vc_hand_brake = hand_brake d, vc_reverse = reverse d,
                       vc_manual_gear_shift = manual_gear_shift d, vc_gear = gear d\<rparr>)
              (routed_spec (vehicle_control_override self) cs))
   \<and> (\<exists>self' evs.
         run self [Vehicle_control_manual_override False, Vehicle_control_cmd d1,
                   Vehicle_control_cmd_manual d2,
                   Vehicle_control_manual_override True, Vehicle_control_cmd d3,
                   Vehicle_control_cmd_manual d4,
                   Vehicle_control_manual_override False, Vehicle_control_cmd d5,
                   Vehicle_control_cmd_manual d6] = Inr (self', evs)
        \<and> applied_controls evs =
            map (\<lambda>d. \<lparr>vc_throttle = throttle d, vc_steer = steer d, vc_brake = brake d,
                       vc_hand_brake = hand_brake d, vc_reverse = reverse d,
                       vc_manual_gear_shift = manual_gear_shift d, vc_gear = gear d\<rparr>)
              [d1, d4, d5])"
proof -
  have setter: "control_command_override self b = (self\<lparr>vehicle_control_override := b\<rparr>, [])"
    by (simp add: control_command_override_def)
  have only: "\<exists>self' evs. handle self c = Inr (self', evs)
        \<and> vehicle_control_override self' =
            (case c of Vehicle_control_manual_override enable \<Rightarrow> enable
             | _ \<Rightarrow> vehicle_control_override self)"
    by (cases c)
      (simp_all add: send_vehicle_msgs_returns control_command_updated_def
         control_command_override_def enable_autopilot_updated_def)
  have next_cmd: "applied_controls
        (snd (control_command_updated (fst (control_command_override self b)) cmd manual_override)) =
       (if manual_override = b
        then [\<lparr>vc_throttle = throttle cmd, vc_steer = steer cmd, vc_brake = brake cmd,
               vc_hand_brake = hand_brake cmd, vc_reverse = reverse cmd,
               vc_manual_gear_shift = manual_gear_shift cmd, vc_gear = gear cmd\<rparr>]
        else [])"
    by (simp add: control_command_override_def control_command_updated_def)
  have many: "\<exists>self' evs. run self cs = Inr (self', evs)
        \<and> applied_controls evs =
            map (\<lambda>d. \<lparr>vc_throttle = throttle d, vc_steer = steer d, vc_brake = brake d,
                       vc_hand_brake = hand_brake d, vc_reverse = reverse d,
                       vc_manual_gear_shift = manual_gear_shift d, vc_gear = gear d\<rparr>)
              (routed_spec (vehicle_control_override self) cs)" for self cs
  proof (induction cs arbitrary: self)
    case Nil
    show ?case by simp
  next
    case (Cons c cs)
    show ?case
    proof (cases c)
      case (Frame e frame timestamp)
      show ?thesis
        using Cons.IH [of "self\<lparr>vehicle_info_published := True\<rparr>"]
        by (auto simp add: Frame send_vehicle_msgs_returns)
    next
      case (Vehicle_control_cmd d)
      show ?thesis
        using Cons.IH [of self]
        by (auto simp add: Vehicle_control_cmd control_command_updated_def)
    next
      case (Vehicle_control_cmd_manual d)
      show ?thesis
        using Cons.IH [of self]
        by (auto simp add: Vehicle_control_cmd_manual control_command_updated_def)
    next
      case (Vehicle_control_manual_override enable)
      show ?thesis
        using Cons.IH [of "self\<lparr>vehicle_control_override := enable\<rparr>"]
        by (auto simp add: Vehicle_control_manual_override control_command_override_def)
    next
      case (Enable_autopilot enable)
      show ?thesis
        using Cons.IH [of self]
        by (auto simp add: Enable_autopilot enable_autopilot_updated_def)
    qed
  qed
  have toggle: "\<exists>self' evs.
         run self [Vehicle_control_manual_override False, Vehicle_control_cmd d1,
                   Vehicle_control_cmd_manual d2,
                   Vehicle_control_manual_override True, Vehicle_control_cmd d3,
                   Vehicle_control_cmd_manual d4,
                   Vehicle_control_manual_override False, Vehicle_control_cmd d5,
                   Vehicle_control_cmd_manual d6] = Inr (self', evs)
        \<and> applied_controls evs =
            map (\<lambda>d. \<lparr>vc_throttle = throttle d, vc_steer = steer d, vc_brake = brake d,
                       vc_hand_brake = hand_brake d, vc_reverse = reverse d,
                       vc_manual_gear_shift = manual_gear_shift d, vc_gear = gear d\<rparr>)
              [d1, d4, d5]"
    by (simp add: control_command_override_def control_command_updated_def)
  from setter only next_cmd many [of self cs] toggle show ?thesis by blast
qed

text \<open>
  C2. The published flag is false after construction; a per-frame call sets it and no
  call resets it. Over any sequence of calls handled by a newly constructed object, the
  static descriptor is published once if the sequence holds a per-frame call, by the first
  of them (it describes the actor as that call saw it), and not at all otherwise.
\<close>

theorem vehicle_info_published_once:
  "vehicle_info_published (init uid) = False
   \<and> (\<exists>self' evs. handle self c = Inr (self', evs)
        \<and> vehicle_info_published self' =
            (case c of Frame e frame timestamp \<Rightarrow> True | _ \<Rightarrow> vehicle_info_published self))
   \<and> (\<exists>self' evs. send_vehicle_msgs self e frame timestamp = Inr (self', evs)
        \<and> vehicle_info_published self'
        \<and> published_infos evs =
            (if vehicle_info_published self then [] else [vehicle_info_of (carla_actor e)]))
   \<and> (\<exists>self' evs. run (init uid) cs = Inr (self', evs)
        \<and> published_infos evs =
            (case first_frame cs of None \<Rightarrow> []
             | Some e1 \<Rightarrow> [vehicle_info_of (carla_actor e1)]))"
proof -
  have start: "vehicle_info_published (init uid) = False"
    by (simp add: init_def)
  have latch: "\<exists>self' evs. handle self c = Inr (self', evs)
        \<and> vehicle_info_published self' =
            (case c of Frame e frame timestamp \<Rightarrow> True | _ \<Rightarrow> vehicle_info_published self)"
    by (cases c)
      (simp_all add: send_vehicle_msgs_returns control_command_updated_def
         control_command_override_def enable_autopilot_updated_def)
  have one: "\<exists>self' evs. send_vehicle_msgs self e frame timestamp = Inr (self', evs)
        \<and> vehicle_info_published self'
        \<and> published_infos evs =
            (if vehicle_info_published self then [] else [vehicle_info_of (carla_actor e)])"
    by (simp add: send_vehicle_msgs_returns)
  have many: "\<exists>self' evs. run self cs = Inr (self', evs)
        \<and> published_infos evs =
            (if vehicle_info_published self then []
             else (case first_frame cs of None \<Rightarrow> []
                   | Some e1 \<Rightarrow> [vehicle_info_of (carla_actor e1)]))" for self
  proof (induction cs arbitrary: self)
    case Nil
    show ?case by simp
  next
    case (Cons c cs)
    show ?case
    proof (cases c)
      case (Frame e frame timestamp)
      show ?thesis
        using Cons.IH [of "self\<lparr>vehicle_info_published := True\<rparr>"]
        by (auto simp add: Frame send_vehicle_msgs_returns)
    next
      case (Vehicle_control_cmd d)
      show ?thesis
        using Cons.IH [of self]
        by (auto simp add: Vehicle_control_cmd control_command_updated_def)
    next
      case (Vehicle_control_cmd_manual d)
      show ?thesis
        using Cons.IH [of self]
        by (auto simp add: Vehicle_control_cmd_manual control_command_updated_def)
    next
      case (Vehicle_control_manual_override enable)
      show ?thesis
        using Cons.IH [of "self\<lparr>vehicle_control_override := enable\<rparr>"]
        by (auto simp add: Vehicle_control_manual_override control_command_override_def)
    next
      case (Enable_autopilot enable)
      show ?thesis
        using Cons.IH [of self]
        by (auto simp add: Enable_autopilot enable_autopilot_updated_def)
    qed
  qed
  from start latch one many [of "init uid"] show ?thesis
    by (simp add: init_def)
qed

text \<open>
  C6. When the vehicle's world transform is the identity, the static descriptor holds, for
  a wheel that the simulator reports at (x, y, z) centimetres, the position
  (x / 100, - y / 100, z / 100) metres: the first per-frame call publishes a descriptor
  whose wheel positions are these, wheel by wheel.
\<close>

theorem wheel_position_identity_transform:
  assumes "is_identity_transform (get_transform (carla_actor e))"
    and "\<not> vehicle_info_published self"
  shows "\<exists>self' evs info.
           send_vehicle_msgs self e frame timestamp = Inr (self', evs)
           \<and> published_infos evs = [info]
           \<and> map wheel_position (wheels info) =
               map (\<lambda>wheel. \<lparr>vec_x = vec_x (wpc_position wheel) / 100,
                              vec_y = - vec_y (wpc_position wheel) / 100,
                              vec_z = vec_z (wpc_position wheel) / 100\<rparr>)
                 (vpc_wheels (get_physics_control (carla_actor e)))"
proof -
  have m: "get_inverse_matrix (get_transform (carla_actor e)) = identity_matrix"
    using assms(1) by (simp add: is_identity_transform_def)
  have w: "wheel_position (wheel_info_of (carla_actor e) wheel) =
             \<lparr>vec_x = vec_x (wpc_position wheel) / 100,
              vec_y = - vec_y (wpc_position wheel) / 100,
              vec_z = vec_z (wpc_position wheel) / 100\<rparr>" for wheel
    by (simp add: wheel_info_of_fields m identity_matrix_def)
  have ws: "map wheel_position (wheels (vehicle_info_of (carla_actor e))) =
               map (\<lambda>wheel. \<lparr>vec_x = vec_x (wpc_position wheel) / 100,
                              vec_y = - vec_y (wpc_position wheel) / 100,
                              vec_z = vec_z (wpc_position wheel) / 100\<rparr>)
                 (vpc_wheels (get_physics_control (carla_actor e)))"
    by (simp add: wheels_of_vehicle_info w comp_def)
  show ?thesis
    using assms(2) ws by (simp add: send_vehicle_msgs_returns)
qed

theorem wheel_position_identity_transform_witness:
  "is_identity_transform (get_transform (carla_actor example_env))
   \<and> \<not> vehicle_info_published (init 7)
   \<and> (\<exists>self' evs info.
         send_vehicle_msgs (init 7) example_env 1 0 = Inr (self', evs)
         \<and> published_infos evs = [info]
         \<and> map wheel_position (wheels info) =
             [\<lparr>vec_x = 3 / 2, vec_y = - (4 / 5), vec_z = 3 / 10\<rparr>])"
proof -
  have t: "is_identity_transform (get_transform (carla_actor example_env))"
    by (simp add: is_identity_transform_def example_env_def example_actor_def)
  have p: "\<not> vehicle_info_published (init 7)"
    by (simp add: init_def)
  show ?thesis
    using wheel_position_identity_transform [OF t p, of 1 0] t p
    by (simp add: example_env_def example_actor_def example_wheel_def)
qed

text \<open>
  C7. Each wheel of the static descriptor copies tire friction, damping rate, radius, the
  maximal brake torque and the maximal handbrake torque of the simulator's wheel; its
  maximal steering angle is the simulator's, converted from degrees to radians; its
  position is the simulator's position divided by 100, multiplied by the inverse matrix of
  the vehicle's current transform (rows m0, m1, m2 and the translation column), with the
  sign of the Y component changed after the multiplication. The descriptor that a
  per-frame call publishes holds these wheels in the simulator's order.
\<close>

theorem wheel_info_conversion:
  "\<exists>self' evs.
     send_vehicle_msgs self e frame timestamp = Inr (self', evs)
     \<and> map wheels (published_infos evs) =
         (if vehicle_info_published self then []
          else [map (\<lambda>wheel.
                  case get_inverse_matrix (get_transform (carla_actor e)) of
                    ((m00, m01, m02, m03), (m10, m11, m12, m13), (m20, m21, m22, m23), r3) \<Rightarrow>
                      \<lparr>tire_friction = wpc_tire_friction wheel,
                       damping_rate = wpc_damping_rate wheel,
                       max_steer_angle = wpc_max_steer_angle wheel * pi / 180,
                       radius = wpc_radius wheel,
                       max_brake_torque = wpc_max_brake_torque wheel,
                       max_handbrake_torque = wpc_max_handbrake_torque wheel,
                       wheel_position =
                         \<lparr>vec_x = m00 * (vec_x (wpc_position wheel) / 100)
                                  + m01 * (vec_y (wpc_position wheel) / 100)
                                  + m02 * (vec_z (wpc_position wheel) / 100) + m03,
                          vec_y = - (m10 * (vec_x (wpc_position wheel) / 100)
                                     + m11 * (vec_y (wpc_position wheel) / 100)
                                     + m12 * (vec_z (wpc_position wheel) / 100) + m13),
                          vec_z = m20 * (vec_x (wpc_position wheel) / 100)
                                  + m21 * (vec_y (wpc_position wheel) / 100)
                                  + m22 * (vec_z (wpc_position wheel) / 100) + m23\<rparr>\<rparr>)
                 (vpc_wheels (get_physics_control (carla_actor e)))])"
proof -
  have "wheels (vehicle_info_of (carla_actor e)) =
          map (\<lambda>wheel.
                  case get_inverse_matrix (get_transform (carla_actor e)) of
                    ((m00, m01, m02, m03), (m10, m11, m12, m13), (m20, m21, m22, m23), r3) \<Rightarrow>
                      \<lparr>tire_friction = wpc_tire_friction wheel,
                       damping_rate = wpc_damping_rate wheel,
                       max_steer_angle = wpc_max_steer_angle wheel * pi / 180,
                       radius = wpc_radius wheel,
                       max_brake_torque = wpc_max_brake_torque wheel,
                       max_handbrake_torque = wpc_max_handbrake_torque wheel,
                       wheel_position =
                         \<lparr>vec_x = m00 * (vec_x (wpc_position wheel) / 100)
                                  + m01 * (vec_y (wpc_position wheel) / 100)
                                  + m02 * (vec_z (wpc_position wheel) / 100) + m03,
                          vec_y = - (m10 * (vec_x (wpc_position wheel) / 100)
                                     + m11 * (vec_y (wpc_position wheel) / 100)
                                     + m12 * (vec_z (wpc_position wheel) / 100) + m13),
                          vec_z = m20 * (vec_x (wpc_position wheel) / 100)
                                  + m21 * (vec_y (wpc_position wheel) / 100)
                                  + m22 * (vec_z (wpc_position wheel) / 100) + m23\<rparr>\<rparr>)
            (vpc_wheels (get_physics_control (carla_actor e)))"
    unfolding wheels_of_vehicle_info
    by (rule map_cong [OF refl]) (rule wheel_info_of_fields)
  then show ?thesis
    by (simp add: send_vehicle_msgs_returns)
qed

text \<open>
  C8. Every per-frame call publishes one derived-telemetry (Canbus) message, and its
  checksum field is the constant 1, whatever the state of the vehicle and of the object.
\<close>

theorem canbus_checksum_constant:
  "\<exists>self' evs.
     send_vehicle_msgs self e frame timestamp = Inr (self', evs)
     \<and> map checksum (published_canbus evs) = [1]"
  by (simp add: send_vehicle_msgs_returns canbus_msg_of_def)

text \<open>
  C9. For every velocity vector (x, y, z) of the vehicle, \<open>get_vehicle_speed_abs\<close> returns
  (it never raises) the square root of x * x + y * y + z * z, and the per-frame call
  publishes one status message whose velocity field is that value, which is not negative.
\<close>

theorem status_velocity_is_speed:
  "get_vehicle_speed_abs (carla_actor e) =
     Inr (sqrt (vec_x (get_velocity (carla_actor e)) * vec_x (get_velocity (carla_actor e))
                + vec_y (get_velocity (carla_actor e)) * vec_y (get_velocity (carla_actor e))
                + vec_z (get_velocity (carla_actor e)) * vec_z (get_velocity (carla_actor e))))
   \<and> (\<exists>self' evs status.
        send_vehicle_msgs self e frame timestamp = Inr (self', evs)
        \<and> published_statuses evs = [status]
        \<and> velocity status =
            sqrt (vec_x (get_velocity (carla_actor e)) * vec_x (get_velocity (carla_actor e))
                  + vec_y (get_velocity (carla_actor e)) * vec_y (get_velocity (carla_actor e))
                  + vec_z (get_velocity (carla_actor e)) * vec_z (get_velocity (carla_actor e)))
        \<and> 0 \<le> velocity status)"
proof -
  have n: "0 \<le> get_vector_length_squared (get_velocity (carla_actor e))"
    by (rule length_squared_nonneg)
  have r: "get_vehicle_speed_abs (carla_actor e) =
     Inr (sqrt (vec_x (get_velocity (carla_actor e)) * vec_x (get_velocity (carla_actor e))
                + vec_y (get_velocity (carla_actor e)) * vec_y (get_velocity (carla_actor e))
                + vec_z (get_velocity (carla_actor e)) * vec_z (get_velocity (carla_actor e))))"
    by (simp add: speed_abs_returns get_vector_length_squared_def)
  have s: "\<exists>self' evs status.
        send_vehicle_msgs self e frame timestamp = Inr (self', evs)
        \<and> published_statuses evs = [status]
        \<and> velocity status = sqrt (get_vector_length_squared (get_velocity (carla_actor e)))
        \<and> 0 \<le> velocity status"
    using n by (simp add: send_vehicle_msgs_returns vehicle_status_of_def)
  from r s show ?thesis
    by (simp add: get_vector_length_squared_def)
qed

text \<open>
  C10. The pose message of a per-frame call holds the x, y and z of the simulator
  transform's location as they are (no division by 100, no change of sign), and its
  orientation is the orientation of the pose that \<open>get_current_ros_pose\<close> returns, the
  same that the status message of the call holds. \<open>get_quaternion_from_euler\<close> has no
  part in it: whatever rotation \<open>r\<close> is put into the simulator transform, the orientation
  published stays that of \<open>get_current_ros_pose\<close>.
\<close>

theorem pose_copies_location_and_ros_orientation:
  "(\<exists>self' evs status ego_loc.
      send_vehicle_msgs self e frame timestamp = Inr (self', evs)
      \<and> published_poses evs = [ego_loc]
      \<and> published_statuses evs = [status]
      \<and> vec_x (position (pose ego_loc)) = vec_x (location (get_transform (carla_actor e)))
      \<and> vec_y (position (pose ego_loc)) = vec_y (location (get_transform (carla_actor e)))
      \<and> vec_z (position (pose ego_loc)) = vec_z (location (get_transform (carla_actor e)))
      \<and> orientation (pose ego_loc) = orientation (get_current_ros_pose e)
      \<and> orientation (pose ego_loc) = status_orientation status)
   \<and> (\<exists>self' evs ego_loc.
        send_vehicle_msgs self
          (e\<lparr>carla_actor :=
               (carla_actor e)\<lparr>get_transform :=
                 (get_transform (carla_actor e))\<lparr>rotation := r\<rparr>\<rparr>\<rparr>)
          frame timestamp = Inr (self', evs)
        \<and> published_poses evs = [ego_loc]
        \<and> orientation (pose ego_loc) = orientation (get_current_ros_pose e))"
proof -
  have a: "\<exists>self' evs status ego_loc.
      send_vehicle_msgs self e frame timestamp = Inr (self', evs)
      \<and> published_poses evs = [ego_loc]
      \<and> published_statuses evs = [status]
      \<and> vec_x (position (pose ego_loc)) = vec_x (location (get_transform (carla_actor e)))
      \<and> vec_y (position (pose ego_loc)) = vec_y (location (get_transform (carla_actor e)))
      \<and> vec_z (position (pose ego_loc)) = vec_z (location (get_transform (carla_actor e)))
      \<and> orientation (pose ego_loc) = orientation (get_current_ros_pose e)
      \<and> orientation (pose ego_loc) = status_orientation status"
    by (simp add: send_vehicle_msgs_returns ego_loc_of_def vehicle_status_of_def Let_def)
  have b: "\<exists>self' evs ego_loc.
        send_vehicle_msgs self
          (e\<lparr>carla_actor :=
               (carla_actor e)\<lparr>get_transform :=
                 (get_transform (carla_actor e))\<lparr>rotation := r\<rparr>\<rparr>\<rparr>)
          frame timestamp = Inr (self', evs)
        \<and> published_poses evs = [ego_loc]
        \<and> orientation (pose ego_loc) = orientation (get_current_ros_pose e)"
    by (simp add: send_vehicle_msgs_returns ego_loc_of_def Let_def)
  from a b show ?thesis by blast
qed

end
